theory Spec2Isabelle
  imports Complex_Main "HOL-Library.Word"
begin

section \<open>Truth tables and cubes\<close>

text \<open>
  Modelled from the spec: the truth-table representation and its primitives
  (\<^verbatim>\<open>operators.hpp\<close>, \<^verbatim>\<open>operations.hpp\<close>, \<^verbatim>\<open>traits.hpp\<close>) are used by
  \<^verbatim>\<open>threshold_identification.hpp\<close> but are not part of it.  A completely specified
  truth table over \<open>n\<close> variables is a vector of \<open>2 ^ n\<close> function values; the value at
  index \<open>m\<close> is the value of the function on the assignment whose variable \<open>i\<close> is
  bit \<open>i\<close> of \<open>m\<close>.
\<close>

record truth_table =
  num_vars :: nat
  bits :: "bool list"



text \<open>
  Modelled from the spec: \<^verbatim>\<open>cofactor0(table,i)\<close> of \<^verbatim>\<open>operations.hpp\<close>, the sub-function
  obtained by fixing variable \<open>i\<close> to 0, kept as a table over the same \<open>n\<close> variables.
\<close>

definition cofactor0 :: "truth_table \<Rightarrow> nat \<Rightarrow> truth_table" where
  "cofactor0 t i = t\<lparr>bits := map (\<lambda>m. bits t ! unset_bit i m) [0..<length (bits t)]\<rparr>"

text \<open>
  Modelled from the spec: \<^verbatim>\<open>cofactor1(table,i)\<close> of \<^verbatim>\<open>operations.hpp\<close>, the sub-function
  obtained by fixing variable \<open>i\<close> to 1.
\<close>

definition cofactor1 :: "truth_table \<Rightarrow> nat \<Rightarrow> truth_table" where
  "cofactor1 t i = t\<lparr>bits := map (\<lambda>m. bits t ! set_bit i m) [0..<length (bits t)]\<rparr>"

text \<open>
  Modelled from the spec: \<^verbatim>\<open>flip_inplace(table,i)\<close> of \<^verbatim>\<open>operations.hpp\<close>, the polarity
  flip of variable \<open>i\<close>; the model returns the flipped table.
\<close>

definition flip_inplace :: "truth_table \<Rightarrow> nat \<Rightarrow> truth_table" where
  "flip_inplace t i = t\<lparr>bits := map (\<lambda>m. bits t ! flip_bit i m) [0..<length (bits t)]\<rparr>"

text \<open>Modelled from the spec: bitwise OR of two tables (\<^verbatim>\<open>operator|\<close> of \<^verbatim>\<open>operators.hpp\<close>).\<close>

definition binary_or :: "truth_table \<Rightarrow> truth_table \<Rightarrow> truth_table" where
  "binary_or a b = a\<lparr>bits := map2 (\<or>) (bits a) (bits b)\<rparr>"

text \<open>Modelled from the spec: the complement of a table (\<^verbatim>\<open>operator~\<close> of \<^verbatim>\<open>operators.hpp\<close>).\<close>

definition unary_not :: "truth_table \<Rightarrow> truth_table" where
  "unary_not a = a\<lparr>bits := map Not (bits a)\<rparr>"

text \<open>
  Modelled from the spec: a cube is a product term; for each variable it says whether the
  variable is constrained (\<^verbatim>\<open>get_mask\<close>) and, if so, whether it is required true or false
  (\<^verbatim>\<open>get_bit\<close>).  The two bit sets are kept as natural numbers.
\<close>

record cube =
  cube_bits :: nat
  cube_mask :: nat

text \<open>Modelled from the spec: \<^verbatim>\<open>cube.get_mask(i)\<close>, whether variable \<open>i\<close> is constrained.\<close>

definition get_mask :: "cube \<Rightarrow> nat \<Rightarrow> bool" where
  "get_mask c i = bit (cube_mask c) i"

text \<open>
  Modelled from the spec: \<^verbatim>\<open>cube.get_bit(i)\<close>, the polarity required of variable \<open>i\<close> when it
  is constrained.
\<close>

definition get_bit :: "cube \<Rightarrow> nat \<Rightarrow> bool" where
  "get_bit c i = bit (cube_bits c) i"

section \<open>The solver library as seen by the routine\<close>

text \<open>
  The LP library (\<^verbatim>\<open>lpsolve/lp_lib.h\<close>) is external.  A model handle is the data the
  routine has registered so far; the library's answers are parameters of the routine
  (record \<open>env\<close> below).  \<^verbatim>\<open>REAL\<close> is modelled by the real numbers.  A constraint is the
  prefix of length \<^verbatim>\<open>cnt\<close> of the two buffers passed to \<^verbatim>\<open>add_constraintex\<close>, its
  relation and its right-hand side; column numbers are 1-based.
\<close>

datatype constr_type = LE | GE

record constraint =
  row :: "real list"
  colno :: "nat list"
  constr_type :: constr_type
  rh :: real

record lprec =
  columns :: nat
  rows :: "constraint list"
  obj_fn :: "(real list \<times> nat list) option"
  minim :: bool

datatype status =
  NOMEMORY | OPTIMAL | SUBOPTIMAL | INFEASIBLE | UNBOUNDED | DEGENERATE | NUMFAILURE

datatype resource = Colno_buffer | Row_buffer | Lp_model

datatype call =
    Malloc resource
  | Make_lp nat nat
  | Set_verbose
  | Set_add_rowmode bool
  | Add_constraintex constraint
  | Set_obj_fnex "real list" "nat list"
  | Set_minim
  | Solve
  | Get_variables
  | Free resource
  | Delete_lp

text \<open>
  The collaborators: the cover generator \<^verbatim>\<open>isop\<close> (\<^verbatim>\<open>isop.hpp\<close>, not part of the
  source file), the allocator and the LP library.  \<open>alloc_ok r\<close> says whether the
  allocation of \<open>r\<close> (\<^verbatim>\<open>malloc\<close> for the buffers, \<^verbatim>\<open>make_lp\<close> for the model) returns a
  non-null pointer.
\<close>

record env =
  isop :: "truth_table \<Rightarrow> cube list"
  alloc_ok :: "resource \<Rightarrow> bool"
  add_constraintex_ok :: "lprec \<Rightarrow> constraint \<Rightarrow> bool"
  set_obj_fnex_ok :: "lprec \<Rightarrow> bool"
  solve :: "lprec \<Rightarrow> status"
  get_variables :: "lprec \<Rightarrow> real list"

section \<open>The routine\<close>

type_synonym linear_form = "64 word list"

text \<open>
  The local state of the classification loop: the caller's table \<open>tt\<close> (a const
  reference), the working copy \<open>ttf\<close> and the list \<open>neg_unate\<close>.
\<close>

record frame =
  tt_arg :: truth_table
  ttf :: truth_table
  neg_unate :: "nat list"

text \<open>
  The loop of lines 79 to 101 over the variable indices.  \<open>Inl\<close> is the early
  \<^verbatim>\<open>return false\<close> on a binate variable, \<open>Inr\<close> the normal end of the loop.
\<close>

primrec classify :: "nat list \<Rightarrow> frame \<Rightarrow> frame + frame" where
  "classify [] fr = Inr fr"
| "classify (i # js) fr =
    (let tt1 = cofactor0 (ttf fr) i;
         tt2 = cofactor1 (ttf fr) i;
         smoothing = binary_or tt1 tt2
     in if tt1 = tt2 then classify js fr
        else if tt1 = smoothing then
          classify js (fr\<lparr>ttf := flip_inplace (ttf fr) i, neg_unate := neg_unate fr @ [i]\<rparr>)
        else if tt2 \<noteq> smoothing then Inl fr
        else classify js fr)"

text \<open>
  Lines 129 to 141 and 149 to 161: the buffers filled for one cube.  The variables
  selected by the test of the inner loop get coefficient 1, then column \<open>ncol\<close> (the
  threshold) gets coefficient \<open>-1\<close>.
\<close>

definition on_selected :: "nat \<Rightarrow> cube \<Rightarrow> nat list" where
  "on_selected numvars cube = filter (\<lambda>i. get_mask cube i \<and> get_bit cube i) [0..<numvars]"

definition off_selected :: "nat \<Rightarrow> cube \<Rightarrow> nat list" where
  "off_selected numvars cube =
     filter (\<lambda>i. \<not> get_mask cube i \<or> (get_mask cube i \<and> get_bit cube i)) [0..<numvars]"

definition on_constraint :: "nat \<Rightarrow> cube \<Rightarrow> constraint" where
  "on_constraint numvars cube =
     (let sel = on_selected numvars cube
      in \<lparr>row = replicate (length sel) 1 @ [-1], colno = map Suc sel @ [numvars + 1],
          constr_type = GE, rh = 0\<rparr>)"

definition off_constraint :: "nat \<Rightarrow> cube \<Rightarrow> constraint" where
  "off_constraint numvars cube =
     (let sel = off_selected numvars cube
      in \<lparr>row = replicate (length sel) 1 @ [-1], colno = map Suc sel @ [numvars + 1],
          constr_type = LE, rh = -1\<rparr>)"

text \<open>
  The two registration loops (lines 129 to 147 and 149 to 167) have the same shape: build
  the constraint of each cube, call \<^verbatim>\<open>add_constraintex\<close>, and return false at the first
  refusal (\<open>None\<close>).  The calls made are appended to the log.
\<close>

fun register_cubes ::
  "env \<Rightarrow> (cube \<Rightarrow> constraint) \<Rightarrow> cube list \<Rightarrow> lprec \<Rightarrow> call list \<Rightarrow> lprec option \<times> call list"
where
  "register_cubes e mk [] lp cs = (Some lp, cs)"
| "register_cubes e mk (cube # rest) lp cs =
    (let c = mk cube; cs' = cs @ [Add_constraintex c]
     in if add_constraintex_ok e lp c
        then register_cubes e mk rest (lp\<lparr>rows := rows lp @ [c]\<rparr>) cs'
        else (None, cs'))"

text \<open>
  \<^verbatim>\<open>static_cast<int64_t>\<close> of a \<^verbatim>\<open>REAL\<close>: truncation towards zero.  (Outside the
  range of \<^verbatim>\<open>int64_t\<close> the cast is undefined in C++; the model wraps.)
\<close>

definition trunc_real :: "real \<Rightarrow> int" where
  "trunc_real r = (if 0 \<le> r then \<lfloor>r\<rfloor> else \<lceil>r\<rceil>)"

definition to_int64 :: "real \<Rightarrow> 64 word" where
  "to_int64 r = word_of_int (trunc_real r)"

text \<open>
  \<^verbatim>\<open>get_variables(lp, row)\<close> overwrites the row buffer with the solution, one value per
  column.
\<close>

definition store_variables :: "real list \<Rightarrow> real list \<Rightarrow> real list" where
  "store_variables vals buf = take (length buf) (vals @ drop (length vals) buf)"

text \<open>
  Lines 204 to 209, the adjustment for negative-unate variables.  Every \<open>var\<close> pushed by
  the classifier is below \<open>numvars\<close>, so both indices are inside the vector.
\<close>

fun adjust :: "nat \<Rightarrow> nat list \<Rightarrow> ('a::{uminus,plus}) list \<Rightarrow> 'a list" where
  "adjust ncol [] lf = lf"
| "adjust ncol (var # vs) lf =
    (let lf1 = lf[var := - (lf ! var)];
         lf2 = lf1[ncol - 1 := lf1 ! (ncol - 1) + lf1 ! var]
     in adjust ncol vs lf2)"

text \<open>
  What a call leaves behind: how it ended, the vector behind \<open>plf\<close> (\<open>None\<close> for a null
  pointer), the caller's table, the allocations still live, and the calls made to the
  allocator and the LP library.
\<close>

datatype outcome = Return bool | Null_dereference

record result =
  outcome :: outcome
  plf_out :: "linear_form option"
  tt_out :: truth_table
  live :: "resource set"
  calls :: "call list"

definition allocate :: "env \<Rightarrow> resource set" where
  "allocate e = Set.filter (alloc_ok e) {Colno_buffer, Row_buffer, Lp_model}"

text \<open>
  Lines 105 to 217, entered when the classification loop has ended normally.  Every
  \<^verbatim>\<open>return\<close> of the source is one record below; \<open>held\<close> is what the three allocations of
  lines 113 to 116 have obtained, and only the returns of lines 192 and 216 are preceded
  by \<^verbatim>\<open>free\<close> and \<^verbatim>\<open>delete_lp\<close>.  The second test of the pointers (line 121) is kept
  although the first one subsumes it.  The messages written to \<^verbatim>\<open>std::cerr\<close> are not
  modelled.  With a null \<open>plf\<close> the assignment of line 211 is a null dereference, after which
  the behaviour of the program is undefined: the model stops there.
\<close>

definition solve_stage :: "env \<Rightarrow> nat \<Rightarrow> frame \<Rightarrow> linear_form option \<Rightarrow> result" where
  "solve_stage e numvars fr plf =
    (let nttf = unary_not (ttf fr);
         fcubes = isop e (ttf fr);
         nfcubes = isop e nttf;
         ncol = numvars + 1;
         held = allocate e;
         cs0 = [Malloc Colno_buffer, Malloc Row_buffer, Make_lp 0 ncol]
     in if \<not> alloc_ok e Lp_model \<or> \<not> alloc_ok e Colno_buffer \<or> \<not> alloc_ok e Row_buffer then
          \<lparr>outcome = Return False, plf_out = plf, tt_out = tt_arg fr, live = held, calls = cs0\<rparr>
        else if \<not> alloc_ok e Colno_buffer \<or> \<not> alloc_ok e Row_buffer then
          \<lparr>outcome = Return False, plf_out = plf, tt_out = tt_arg fr, live = held, calls = cs0\<rparr>
        else
          let lp0 = \<lparr>columns = ncol, rows = [], obj_fn = None, minim = True\<rparr>;
              cs1 = cs0 @ [Set_verbose, Set_add_rowmode True]
          in case register_cubes e (on_constraint numvars) fcubes lp0 cs1 of
               (None, cs2) \<Rightarrow>
                 \<lparr>outcome = Return False, plf_out = plf, tt_out = tt_arg fr, live = held,
                  calls = cs2\<rparr>
             | (Some lp1, cs2) \<Rightarrow>
          (case register_cubes e (off_constraint numvars) nfcubes lp1 cs2 of
               (None, cs3) \<Rightarrow>
                 \<lparr>outcome = Return False, plf_out = plf, tt_out = tt_arg fr, live = held,
                  calls = cs3\<rparr>
             | (Some lp2, cs3) \<Rightarrow>
          (let obj_colno = map Suc [0..<ncol];
               obj_row = replicate ncol (1::real);
               cs4 = cs3 @ [Set_add_rowmode False, Set_obj_fnex obj_row obj_colno]
           in if \<not> set_obj_fnex_ok e lp2 then
                \<lparr>outcome = Return False, plf_out = plf, tt_out = tt_arg fr, live = held,
                 calls = cs4\<rparr>
              else
                let lp3 = lp2\<lparr>obj_fn := Some (obj_row, obj_colno), minim := True\<rparr>;
                    res = solve e lp3;
                    cs5 = cs4 @ [Set_minim, Solve]
                in if res \<noteq> OPTIMAL \<and> res \<noteq> SUBOPTIMAL then
                     \<lparr>outcome = Return False, plf_out = plf, tt_out = tt_arg fr,
                      live = held - {Row_buffer, Colno_buffer, Lp_model},
                      calls = cs5 @ [Free Row_buffer, Free Colno_buffer, Delete_lp]\<rparr>
                   else
                     let solved = store_variables (get_variables e lp3) obj_row;
                         linear_form = adjust ncol (neg_unate fr) (map to_int64 solved);
                         cs6 = cs5 @ [Get_variables]
                     in case plf of
                          None \<Rightarrow>
                            \<lparr>outcome = Null_dereference, plf_out = None, tt_out = tt_arg fr,
                             live = held, calls = cs6\<rparr>
                        | Some old \<Rightarrow>
                            \<lparr>outcome = Return True, plf_out = Some linear_form,
                             tt_out = tt_arg fr,
                             live = held - {Row_buffer, Colno_buffer, Lp_model},
                             calls = cs6 @ [Free Row_buffer, Free Colno_buffer, Delete_lp]\<rparr>)))"

text \<open>\<^verbatim>\<open>is_threshold(tt, plf)\<close>, lines 70 to 217.\<close>

definition is_threshold :: "env \<Rightarrow> truth_table \<Rightarrow> linear_form option \<Rightarrow> result" where
  "is_threshold e tt plf =
    (let numvars = num_vars tt
     in case classify [0..<numvars] \<lparr>tt_arg = tt, ttf = tt, neg_unate = []\<rparr> of
          Inl fr \<Rightarrow>
            \<lparr>outcome = Return False, plf_out = plf, tt_out = tt_arg fr, live = {}, calls = []\<rparr>
        | Inr fr \<Rightarrow> solve_stage e numvars fr plf)"

section \<open>Notions used to state the properties\<close>

text \<open>
  A variable is binate in a table when the three comparisons of the classification loop
  all fail to identify it as don't-care, negative unate or positive unate.
\<close>

definition binate :: "truth_table \<Rightarrow> nat \<Rightarrow> bool" where
  "binate t i \<longleftrightarrow>
     cofactor0 t i \<noteq> cofactor1 t i \<and>
     cofactor0 t i \<noteq> binary_or (cofactor0 t i) (cofactor1 t i) \<and>
     cofactor1 t i \<noteq> binary_or (cofactor0 t i) (cofactor1 t i)"

text \<open>The frame with which \<open>is_threshold\<close> enters the classification loop.\<close>

definition initial_frame :: "truth_table \<Rightarrow> frame" where
  "initial_frame tt = \<lparr>tt_arg = tt, ttf = tt, neg_unate = []\<rparr>"



text \<open>
  The meaning of a registered row for the LP library: the sum of coefficient times column
  value, compared with the right-hand side.  Column \<open>j\<close> (1-based) is entry \<open>j - 1\<close>.
\<close>

definition lhs :: "real list \<Rightarrow> nat list \<Rightarrow> real list \<Rightarrow> real" where
  "lhs coeffs cols vals = sum_list (map2 (\<lambda>a j. a * vals ! (j - 1)) coeffs cols)"

definition satisfies :: "constraint \<Rightarrow> real list \<Rightarrow> bool" where
  "satisfies c vals \<longleftrightarrow>
     (case constr_type c of
        GE \<Rightarrow> rh c \<le> lhs (row c) (colno c) vals
      | LE \<Rightarrow> lhs (row c) (colno c) vals \<le> rh c)"




text \<open>The rows registered by a sequence of library calls, in order.\<close>

fun registered :: "call list \<Rightarrow> constraint list" where
  "registered [] = []"
| "registered (Add_constraintex c # cs) = c # registered cs"
| "registered (_ # cs) = registered cs"

text \<open>
  The model on which \<^verbatim>\<open>solve\<close> is called when every registration has succeeded: one row
  per cube of the two covers, and the objective of lines 172 to 181.
\<close>

definition problem :: "env \<Rightarrow> nat \<Rightarrow> frame \<Rightarrow> lprec" where
  "problem e numvars fr =
     \<lparr>columns = numvars + 1,
      rows = map (on_constraint numvars) (isop e (ttf fr)) @
             map (off_constraint numvars) (isop e (unary_not (ttf fr))),
      obj_fn = Some (replicate (numvars + 1) 1, map Suc [0..<numvars + 1]),
      minim = True\<rparr>"

text \<open>
  The library accepts every row of a registration loop started on the model \<open>lp\<close>, and
  the routine gets as far as calling \<^verbatim>\<open>solve\<close>: the three allocations succeed, both
  loops are accepted and so is the objective.
\<close>

fun accepts :: "env \<Rightarrow> (cube \<Rightarrow> constraint) \<Rightarrow> cube list \<Rightarrow> lprec \<Rightarrow> bool" where
  "accepts e mk [] lp = True"
| "accepts e mk (cube # rest) lp =
     (add_constraintex_ok e lp (mk cube) \<and> accepts e mk rest (lp\<lparr>rows := rows lp @ [mk cube]\<rparr>))"

definition reaches_solve :: "env \<Rightarrow> nat \<Rightarrow> frame \<Rightarrow> bool" where
  "reaches_solve e numvars fr \<longleftrightarrow>
     alloc_ok e Lp_model \<and> alloc_ok e Colno_buffer \<and> alloc_ok e Row_buffer \<and>
     accepts e (on_constraint numvars) (isop e (ttf fr))
       \<lparr>columns = numvars + 1, rows = [], obj_fn = None, minim = True\<rparr> \<and>
     accepts e (off_constraint numvars) (isop e (unary_not (ttf fr)))
       \<lparr>columns = numvars + 1, rows = map (on_constraint numvars) (isop e (ttf fr)),
        obj_fn = None, minim = True\<rparr> \<and>
     set_obj_fnex_ok e ((problem e numvars fr)\<lparr>obj_fn := None\<rparr>)"

text \<open>The values pushed into \<^verbatim>\<open>linear_form\<close> by lines 197 to 202, before the adjustment.\<close>

definition solved_form :: "env \<Rightarrow> nat \<Rightarrow> frame \<Rightarrow> linear_form" where
  "solved_form e numvars fr =
     map to_int64 (store_variables (get_variables e (problem e numvars fr))
                     (replicate (numvars + 1) 1))"





section \<open>Concrete tables and collaborators\<close>

text \<open>
  Two-variable tables: XOR, AND, \<open>\<not> x\<^sub>0 \<and> x\<^sub>1\<close> and the projection on \<open>x\<^sub>0\<close> (which ignores
  \<open>x\<^sub>1\<close>).  Index \<open>m\<close> of a table is the assignment \<open>x\<^sub>0 = bit 0 of m\<close>, \<open>x\<^sub>1 = bit 1 of m\<close>.
\<close>

definition xor2 :: truth_table where
  "xor2 = \<lparr>num_vars = 2, bits = [False, True, True, False]\<rparr>"

definition and2 :: truth_table where
  "and2 = \<lparr>num_vars = 2, bits = [False, False, False, True]\<rparr>"

definition nx0_and_x1 :: truth_table where
  "nx0_and_x1 = \<lparr>num_vars = 2, bits = [False, False, True, False]\<rparr>"


text \<open>
  A library in which every allocation and registration succeeds.  The cover generator
  answers with the irredundant covers of AND (\<open>x\<^sub>0 x\<^sub>1\<close>) and of its complement
  (\<open>\<not> x\<^sub>0 + \<not> x\<^sub>1\<close>); the solver reports OPTIMAL with the point \<open>(1, 1, 2)\<close>.
\<close>

definition and2_env :: env where
  "and2_env =
     \<lparr>isop = (\<lambda>t. if t = and2 then [\<lparr>cube_bits = 3, cube_mask = 3\<rparr>]
                  else [\<lparr>cube_bits = 0, cube_mask = 1\<rparr>, \<lparr>cube_bits = 0, cube_mask = 2\<rparr>]),
      alloc_ok = (\<lambda>r. True),
      add_constraintex_ok = (\<lambda>lp c. True),
      set_obj_fnex_ok = (\<lambda>lp. True),
      solve = (\<lambda>lp. OPTIMAL),
      get_variables = (\<lambda>lp. [1, 1, 2])\<rparr>"

text \<open>The same library when \<^verbatim>\<open>add_constraintex\<close> refuses a row.\<close>

definition refusing_env :: env where
  "refusing_env = and2_env\<lparr>add_constraintex_ok := (\<lambda>lp c. False)\<rparr>"



section \<open>The registration loops and the solve stage\<close>

lemma register_cubes_accepts:
  "accepts e mk cubes lp \<Longrightarrow>
     register_cubes e mk cubes lp cs =
       (Some (lp\<lparr>rows := rows lp @ map mk cubes\<rparr>), cs @ map (\<lambda>c. Add_constraintex (mk c)) cubes)"
  by (induction cubes arbitrary: lp cs) (simp_all add: Let_def)

lemma register_cubes_rejects:
  "\<not> accepts e mk cubes lp \<Longrightarrow>
     \<exists>k. register_cubes e mk cubes lp cs =
       (None, cs @ map (\<lambda>c. Add_constraintex (mk c)) (take k cubes))"
proof (induction cubes arbitrary: lp cs)
  case Nil
  then show ?case by simp
next
  case (Cons cube rest)
  show ?case
  proof (cases "add_constraintex_ok e lp (mk cube)")
    case True
    with Cons.prems have "\<not> accepts e mk rest (lp\<lparr>rows := rows lp @ [mk cube]\<rparr>)"
      by simp
    from Cons.IH [OF this, of "cs @ [Add_constraintex (mk cube)]"]
    obtain k where "register_cubes e mk rest (lp\<lparr>rows := rows lp @ [mk cube]\<rparr>)
        (cs @ [Add_constraintex (mk cube)]) =
        (None, (cs @ [Add_constraintex (mk cube)]) @ map (\<lambda>c. Add_constraintex (mk c)) (take k rest))"
      by blast
    with True have "register_cubes e mk (cube # rest) lp cs =
        (None, cs @ map (\<lambda>c. Add_constraintex (mk c)) (take (Suc k) (cube # rest)))"
      by (simp add: Let_def)
    then show ?thesis by blast
  next
    case False
    then have "register_cubes e mk (cube # rest) lp cs =
        (None, cs @ map (\<lambda>c. Add_constraintex (mk c)) (take (Suc 0) (cube # rest)))"
      by (simp add: Let_def)
    then show ?thesis by blast
  qed
qed

lemma registered_append: "registered (xs @ ys) = registered xs @ registered ys"
  by (induction xs rule: registered.induct) auto

lemma registered_map_add: "registered (map (\<lambda>c. Add_constraintex (mk c)) cubes) = map mk cubes"
  by (induction cubes) auto

lemma solve_stage_reached:
  assumes "reaches_solve e n fr"
  shows "solve_stage e n fr plf =
    (if solve e (problem e n fr) \<noteq> OPTIMAL \<and> solve e (problem e n fr) \<noteq> SUBOPTIMAL then
       \<lparr>outcome = Return False, plf_out = plf, tt_out = tt_arg fr, live = {},
        calls = [Malloc Colno_buffer, Malloc Row_buffer, Make_lp 0 (n + 1), Set_verbose,
                 Set_add_rowmode True] @
                map Add_constraintex (rows (problem e n fr)) @
                [Set_add_rowmode False,
                 Set_obj_fnex (replicate (n + 1) 1) (map Suc [0..<n + 1]), Set_minim, Solve,
                 Free Row_buffer, Free Colno_buffer, Delete_lp]\<rparr>
     else case plf of
       None \<Rightarrow>
         \<lparr>outcome = Null_dereference, plf_out = None, tt_out = tt_arg fr,
          live = {Colno_buffer, Row_buffer, Lp_model},
          calls = [Malloc Colno_buffer, Malloc Row_buffer, Make_lp 0 (n + 1), Set_verbose,
                 Set_add_rowmode True] @
                map Add_constraintex (rows (problem e n fr)) @
                [Set_add_rowmode False,
                 Set_obj_fnex (replicate (n + 1) 1) (map Suc [0..<n + 1]), Set_minim, Solve,
                 Get_variables]\<rparr>
     | Some old \<Rightarrow>
         \<lparr>outcome = Return True,
          plf_out = Some (adjust (n + 1) (neg_unate fr) (solved_form e n fr)),
          tt_out = tt_arg fr, live = {},
          calls = [Malloc Colno_buffer, Malloc Row_buffer, Make_lp 0 (n + 1), Set_verbose,
                 Set_add_rowmode True] @
                map Add_constraintex (rows (problem e n fr)) @
                [Set_add_rowmode False,
                 Set_obj_fnex (replicate (n + 1) 1) (map Suc [0..<n + 1]), Set_minim, Solve,
                 Get_variables, Free Row_buffer, Free Colno_buffer, Delete_lp]\<rparr>)"
proof -
  have held: "allocate e = {Colno_buffer, Row_buffer, Lp_model}"
    using assms by (auto simp: reaches_solve_def allocate_def)
  show ?thesis
    using assms
    by (simp add: reaches_solve_def solve_stage_def Let_def register_cubes_accepts held
        problem_def solved_form_def split: option.splits)
qed

lemma solve_stage_not_reached:
  assumes "\<not> reaches_solve e n fr"
  shows "outcome (solve_stage e n fr plf) = Return False \<and>
         plf_out (solve_stage e n fr plf) = plf \<and>
         tt_out (solve_stage e n fr plf) = tt_arg fr \<and>
         Solve \<notin> set (calls (solve_stage e n fr plf))"
proof (cases "alloc_ok e Lp_model \<and> alloc_ok e Colno_buffer \<and> alloc_ok e Row_buffer")
  case False
  then show ?thesis by (auto simp: solve_stage_def Let_def)
next
  case al: True
  let ?lp0 = "\<lparr>columns = n + 1, rows = [], obj_fn = None, minim = True\<rparr>"
  let ?cs1 = "[Malloc Colno_buffer, Malloc Row_buffer, Make_lp 0 (n + 1)] @ [Set_verbose, Set_add_rowmode True]"
  show ?thesis
  proof (cases "accepts e (on_constraint n) (isop e (ttf fr)) ?lp0")
    case False
    from register_cubes_rejects [OF this, of ?cs1] obtain k where
      "register_cubes e (on_constraint n) (isop e (ttf fr)) ?lp0 ?cs1 =
        (None, ?cs1 @ map (\<lambda>c. Add_constraintex (on_constraint n c)) (take k (isop e (ttf fr))))"
      by blast
    with al show ?thesis by (auto simp: solve_stage_def Let_def)
  next
    case on: True
    let ?lp1 = "?lp0\<lparr>rows := rows ?lp0 @ map (on_constraint n) (isop e (ttf fr))\<rparr>"
    let ?cs2 = "?cs1 @ map (\<lambda>c. Add_constraintex (on_constraint n c)) (isop e (ttf fr))"
    note r1 = register_cubes_accepts [OF on, of ?cs1]
    show ?thesis
    proof (cases "accepts e (off_constraint n) (isop e (unary_not (ttf fr))) ?lp1")
      case False
      from register_cubes_rejects [OF this, of ?cs2] obtain k where
        "register_cubes e (off_constraint n) (isop e (unary_not (ttf fr))) ?lp1 ?cs2 =
          (None, ?cs2 @ map (\<lambda>c. Add_constraintex (off_constraint n c))
             (take k (isop e (unary_not (ttf fr)))))"
        by blast
      with al r1 show ?thesis by (auto simp: solve_stage_def Let_def)
    next
      case off: True
      note r2 = register_cubes_accepts [OF off, of ?cs2]
      from assms al on off have "\<not> set_obj_fnex_ok e ((problem e n fr)\<lparr>obj_fn := None\<rparr>)"
        by (simp add: reaches_solve_def)
      with al r1 r2 show ?thesis
        by (auto simp: solve_stage_def Let_def problem_def)
    qed
  qed
qed

section \<open>The classification loop\<close>

lemma classify_append:
  "classify (xs @ ys) fr = (case classify xs fr of Inl f \<Rightarrow> Inl f | Inr f \<Rightarrow> classify ys f)"
  by (induction xs arbitrary: fr) (simp_all add: Let_def)

lemma classify_tt_arg:
  "classify js fr = Inl fr' \<or> classify js fr = Inr fr' \<Longrightarrow> tt_arg fr' = tt_arg fr"
proof (induction js arbitrary: fr)
  case Nil
  then show ?case by simp
next
  case (Cons i js)
  let ?fl = "fr\<lparr>ttf := flip_inplace (ttf fr) i, neg_unate := neg_unate fr @ [i]\<rparr>"
  from Cons.prems consider
      "classify js fr = Inl fr' \<or> classify js fr = Inr fr'"
    | "classify js ?fl = Inl fr' \<or> classify js ?fl = Inr fr'"
    | "fr' = fr"
    by (auto simp: Let_def split: if_splits)
  then show ?case
  proof cases
    case 1
    then show ?thesis by (rule Cons.IH)
  next
    case 2
    from Cons.IH [OF this] show ?thesis by simp
  next
    case 3
    then show ?thesis by simp
  qed
qed

lemma classify_Inr:
  "classify js fr = Inr fr' \<Longrightarrow>
     \<exists>new. neg_unate fr' = neg_unate fr @ new \<and>
           ttf fr' = fold (\<lambda>i t. flip_inplace t i) new (ttf fr) \<and>
           set new \<subseteq> set js \<and> (distinct js \<longrightarrow> distinct new)"
proof (induction js arbitrary: fr)
  case Nil
  then show ?case by simp
next
  case (Cons i js)
  let ?fl = "fr\<lparr>ttf := flip_inplace (ttf fr) i, neg_unate := neg_unate fr @ [i]\<rparr>"
  from Cons.prems consider "classify js fr = Inr fr'" | "classify js ?fl = Inr fr'"
    by (auto simp: Let_def split: if_splits)
  then show ?case
  proof cases
    case 1
    from Cons.IH [OF this] obtain new where
      "neg_unate fr' = neg_unate fr @ new" "ttf fr' = fold (\<lambda>i t. flip_inplace t i) new (ttf fr)"
      "set new \<subseteq> set js" "distinct js \<longrightarrow> distinct new"
      by blast
    then show ?thesis by (intro exI [of _ new]) auto
  next
    case 2
    from Cons.IH [OF this] obtain new where
      "neg_unate fr' = neg_unate ?fl @ new" "ttf fr' = fold (\<lambda>i t. flip_inplace t i) new (ttf ?fl)"
      "set new \<subseteq> set js" "distinct js \<longrightarrow> distinct new"
      by blast
    then show ?thesis by (intro exI [of _ "i # new"]) auto
  qed
qed

lemma classify_initial:
  assumes "classify [0..<n] (initial_frame tt) = Inr fr"
  shows "tt_arg fr = tt" "ttf fr = fold (\<lambda>i t. flip_inplace t i) (neg_unate fr) tt"
    "set (neg_unate fr) \<subseteq> {..<n}" "distinct (neg_unate fr)"
proof -
  from classify_tt_arg [of "[0..<n]" "initial_frame tt" fr] assms
  show "tt_arg fr = tt" by (simp add: initial_frame_def)
  from classify_Inr [OF assms] obtain new where
    "neg_unate fr = neg_unate (initial_frame tt) @ new"
    "ttf fr = fold (\<lambda>i t. flip_inplace t i) new (ttf (initial_frame tt))"
    "set new \<subseteq> set [0..<n]" "distinct [0..<n] \<longrightarrow> distinct new"
    by blast
  then show "ttf fr = fold (\<lambda>i t. flip_inplace t i) (neg_unate fr) tt"
    "set (neg_unate fr) \<subseteq> {..<n}" "distinct (neg_unate fr)"
    by (auto simp: initial_frame_def)
qed

lemma is_threshold_frame:
  "is_threshold e tt plf =
    (case classify [0..<num_vars tt] (initial_frame tt) of
       Inl fr \<Rightarrow> \<lparr>outcome = Return False, plf_out = plf, tt_out = tt_arg fr, live = {}, calls = []\<rparr>
     | Inr fr \<Rightarrow> solve_stage e (num_vars tt) fr plf)"
  by (simp add: is_threshold_def initial_frame_def Let_def)

section \<open>Rows, their meaning, and the adjustment\<close>

lemma lhs_selected:
  "lhs (replicate (length sel) 1 @ [-1]) (map Suc sel @ [Suc n]) vals =
     sum_list (map (\<lambda>i. vals ! i) sel) - vals ! n"
  by (induction sel) (simp_all add: lhs_def)

lemma sum_list_filter_upt:
  "sum_list (map f (filter P [0..<n])) = sum f {i. i < n \<and> P i}"
proof -
  have "sum_list (map f (filter P [0..<n])) = sum f (set (filter P [0..<n]))"
    by (rule sum_list_distinct_conv_sum_set) simp
  also have "set (filter P [0..<n]) = {i. i < n \<and> P i}"
    by auto
  finally show ?thesis .
qed

lemma satisfies_on_constraint:
  "satisfies (on_constraint n cube) vals \<longleftrightarrow>
     0 \<le> (\<Sum>i \<in> {i. i < n \<and> get_mask cube i \<and> get_bit cube i}. vals ! i) - vals ! n"
  by (simp add: satisfies_def on_constraint_def Let_def lhs_selected on_selected_def
      sum_list_filter_upt)

lemma satisfies_off_constraint:
  "satisfies (off_constraint n cube) vals \<longleftrightarrow>
     (\<Sum>i \<in> {i. i < n \<and> (\<not> get_mask cube i \<or> get_bit cube i)}. vals ! i) - vals ! n \<le> -1"
proof -
  have "{i. i < n \<and> (\<not> get_mask cube i \<or> get_mask cube i \<and> get_bit cube i)} =
        {i. i < n \<and> (\<not> get_mask cube i \<or> get_bit cube i)}"
    by auto
  then show ?thesis
    by (simp add: satisfies_def off_constraint_def Let_def lhs_selected off_selected_def
        sum_list_filter_upt)
qed

lemma registered_rows:
  assumes "Solve \<in> set (calls (is_threshold e tt plf))"
  shows "\<exists>fr. classify [0..<num_vars tt] (initial_frame tt) = Inr fr \<and>
           reaches_solve e (num_vars tt) fr \<and>
           registered (calls (is_threshold e tt plf)) = rows (problem e (num_vars tt) fr)"
proof (cases "classify [0..<num_vars tt] (initial_frame tt)")
  case (Inl fr)
  with assms show ?thesis by (simp add: is_threshold_frame)
next
  case (Inr fr)
  show ?thesis
  proof (cases "reaches_solve e (num_vars tt) fr")
    case True
    have "registered (map Add_constraintex cs) = cs" for cs
      using registered_map_add [of "\<lambda>c. c" cs] by simp
    with True Inr show ?thesis
      by (simp add: is_threshold_frame solve_stage_reached registered_append split: option.splits)
  next
    case False
    with Inr assms show ?thesis
      by (simp add: is_threshold_frame solve_stage_not_reached)
  qed
qed

lemma adjust_length: "length (adjust ncol neg lf) = length lf"
  by (induction neg arbitrary: lf) (simp_all add: Let_def)

lemma adjust_nth:
  fixes lf :: "('a::comm_ring) list"
  assumes "distinct neg" "set neg \<subseteq> {..<n}" "length lf = n + 1"
  shows "(\<forall>i<n. adjust (n + 1) neg lf ! i = (if i \<in> set neg then - (lf ! i) else lf ! i)) \<and>
         adjust (n + 1) neg lf ! n = lf ! n + (\<Sum>v \<leftarrow> neg. - (lf ! v))"
  using assms
proof (induction neg arbitrary: lf)
  case Nil
  then show ?case by simp
next
  case (Cons var vs)
  let ?lf1 = "lf[var := - (lf ! var)]"
  let ?lf2 = "?lf1[n := ?lf1 ! n + ?lf1 ! var]"
  from Cons.prems have v: "var < n" "var \<notin> set vs" and d: "distinct vs" "set vs \<subseteq> {..<n}"
    by auto
  from Cons.prems have len: "length ?lf2 = n + 1" by simp
  note IH = Cons.IH [OF d len]
  have a: "adjust (n + 1) (var # vs) lf = adjust (n + 1) vs ?lf2"
    by (simp add: Let_def)
  have l1: "?lf2 ! i = (if i = var then - (lf ! i) else lf ! i)" if "i < n" for i
    using that Cons.prems(3) v by (auto simp: nth_list_update)
  have l2: "?lf2 ! n = lf ! n + - (lf ! var)"
    using Cons.prems(3) v by (simp add: nth_list_update)
  have s: "(\<Sum>w \<leftarrow> vs. - (?lf2 ! w)) = (\<Sum>w \<leftarrow> vs. - (lf ! w))"
  proof (rule arg_cong [where f = sum_list], rule map_cong [OF refl])
    fix w assume "w \<in> set vs"
    with d v have "w < n" "w \<noteq> var" by auto
    then show "- (?lf2 ! w) = - (lf ! w)" using l1 by simp
  qed
  from IH have ih1: "\<forall>i<n. adjust (n + 1) vs ?lf2 ! i = (if i \<in> set vs then - (?lf2 ! i) else ?lf2 ! i)"
    and ih2: "adjust (n + 1) vs ?lf2 ! n = ?lf2 ! n + (\<Sum>w \<leftarrow> vs. - (?lf2 ! w))"
    by blast+
  show ?case unfolding a
  proof (intro conjI allI impI)
    fix i assume i: "i < n"
    show "adjust (n + 1) vs ?lf2 ! i = (if i \<in> set (var # vs) then - (lf ! i) else lf ! i)"
    proof (cases "i = var")
      case True
      with ih1 i v l1 [OF i] show ?thesis by (simp del: nth_list_update)
    next
      case False
      with ih1 i l1 [OF i] show ?thesis by (simp del: nth_list_update)
    qed
  next
    have "adjust (n + 1) vs ?lf2 ! n = (lf ! n + - (lf ! var)) + (\<Sum>w \<leftarrow> vs. - (lf ! w))"
      unfolding ih2 s l2 ..
    then show "adjust (n + 1) vs ?lf2 ! n = lf ! n + (\<Sum>v \<leftarrow> var # vs. - (lf ! v))"
      by (simp add: add.assoc)
  qed
qed

lemma store_variables_length: "length (store_variables vals buf) = length buf"
  by (simp add: store_variables_def)

lemma solved_form_length: "length (solved_form e n fr) = n + 1"
  by (simp add: solved_form_def store_variables_length)

lemma is_threshold_True:
  assumes "classify [0..<num_vars tt] (initial_frame tt) = Inr fr"
    and "outcome (is_threshold e tt plf) = Return True"
  shows "reaches_solve e (num_vars tt) fr"
    and "plf_out (is_threshold e tt plf) =
           Some (adjust (num_vars tt + 1) (neg_unate fr) (solved_form e (num_vars tt) fr))"
proof -
  show r: "reaches_solve e (num_vars tt) fr"
  proof (rule ccontr)
    assume "\<not> reaches_solve e (num_vars tt) fr"
    with assms show False by (simp add: is_threshold_frame solve_stage_not_reached)
  qed
  with assms show "plf_out (is_threshold e tt plf) =
           Some (adjust (num_vars tt + 1) (neg_unate fr) (solved_form e (num_vars tt) fr))"
    by (auto simp: is_threshold_frame solve_stage_reached split: if_splits option.splits)
qed

section \<open>Flipped tables and covers\<close>


lemma flip_inplace_simps [simp]:
  "num_vars (flip_inplace t i) = num_vars t"
  "length (bits (flip_inplace t i)) = length (bits t)"
  by (simp_all add: flip_inplace_def)









lemma unary_not_simps [simp]:
  "num_vars (unary_not t) = num_vars t"
  "length (bits (unary_not t)) = length (bits t)"
  by (simp_all add: unary_not_def)



section \<open>Reading the linear form as integers\<close>








section \<open>Variables the function ignores\<close>








section \<open>The objective and the lowered point\<close>





section \<open>Properties of the routine\<close>



text \<open>
  Claim C2 (binate short-circuit).  If the loop reaches variable \<open>i\<close> and \<open>i\<close> is binate
  in the working copy at that moment, \<open>is_threshold\<close> returns false at once: nothing has
  been allocated, no call to the allocator or the LP library has been made, and \<open>plf\<close> and
  the table are untouched.  The two-input XOR is rejected this way, at variable 0.
\<close>

theorem binate_short_circuit:
  assumes "i < num_vars tt"
    and "classify [0..<i] (initial_frame tt) = Inr fr"
    and "binate (ttf fr) i"
  shows "is_threshold e tt plf =
           \<lparr>outcome = Return False, plf_out = plf, tt_out = tt, live = {}, calls = []\<rparr>"
proof -
  from assms(1) have "[0..<num_vars tt] = [0..<i] @ i # [Suc i..<num_vars tt]"
    by (metis le0 upt_add_eq_append upt_conv_Cons le_add_diff_inverse less_imp_le_nat)
  then have "classify [0..<num_vars tt] (initial_frame tt) = classify (i # [Suc i..<num_vars tt]) fr"
    using assms(2) by (simp add: classify_append)
  also from assms(3) have "\<dots> = Inl fr"
    by (simp add: binate_def Let_def)
  finally have c: "classify [0..<num_vars tt] (initial_frame tt) = Inl fr" .
  from classify_tt_arg [of "[0..<num_vars tt]" "initial_frame tt" fr] c
  have "tt_arg fr = tt" by (simp add: initial_frame_def)
  with c show ?thesis by (simp add: is_threshold_frame)
qed

theorem binate_short_circuit_witness:
  "0 < num_vars xor2 \<and> classify [0..<0] (initial_frame xor2) = Inr (initial_frame xor2) \<and>
   binate (ttf (initial_frame xor2)) 0 \<and>
   is_threshold and2_env xor2 None =
     \<lparr>outcome = Return False, plf_out = None, tt_out = xor2, live = {}, calls = []\<rparr>"
proof -
  have h1: "0 < num_vars xor2" by (simp add: xor2_def)
  have h2: "classify [0..<0] (initial_frame xor2) = Inr (initial_frame xor2)" by simp
  have h3: "binate (ttf (initial_frame xor2)) 0" by code_simp
  from binate_short_circuit [OF h1 h2 h3] h1 h2 h3 show ?thesis by simp
qed

text \<open>
  Claim C3 (ON-set constraint translation).  Whenever the routine gets as far as calling
  the solver, the first rows it has registered are, in order, exactly one row per cube of
  the cover of the normalised function; the row of a cube is a \<open>\<ge>\<close> row and says that the
  sum of the weights of the variables required true by the cube, minus the threshold, is
  at least 0.  Variables that are absent from the cube or required false have no term.
\<close>

theorem on_set_translation:
  assumes "Solve \<in> set (calls (is_threshold e tt plf))"
  shows "\<exists>fr. classify [0..<num_vars tt] (initial_frame tt) = Inr fr \<and>
           take (length (isop e (ttf fr))) (registered (calls (is_threshold e tt plf))) =
             map (on_constraint (num_vars tt)) (isop e (ttf fr)) \<and>
           (\<forall>cube vals.
              constr_type (on_constraint (num_vars tt) cube) = GE \<and>
              (satisfies (on_constraint (num_vars tt) cube) vals \<longleftrightarrow>
               0 \<le> (\<Sum>i \<in> {i. i < num_vars tt \<and> get_mask cube i \<and> get_bit cube i}. vals ! i)
                     - vals ! num_vars tt))"
proof -
  from registered_rows [OF assms] obtain fr where
    c: "classify [0..<num_vars tt] (initial_frame tt) = Inr fr" and
    r: "registered (calls (is_threshold e tt plf)) = rows (problem e (num_vars tt) fr)"
    by blast
  have "take (length (isop e (ttf fr))) (registered (calls (is_threshold e tt plf))) =
          map (on_constraint (num_vars tt)) (isop e (ttf fr))"
    by (simp add: r problem_def)
  moreover have "constr_type (on_constraint (num_vars tt) cube) = GE" for cube
    by (simp add: on_constraint_def Let_def)
  ultimately show ?thesis
    using c satisfies_on_constraint by blast
qed

theorem on_set_translation_witness:
  "Solve \<in> set (calls (is_threshold and2_env and2 (Some []))) \<and>
   (\<exists>fr. classify [0..<num_vars and2] (initial_frame and2) = Inr fr \<and>
      take (length (isop and2_env (ttf fr))) (registered (calls (is_threshold and2_env and2 (Some [])))) =
        map (on_constraint (num_vars and2)) (isop and2_env (ttf fr)))"
proof -
  have h: "Solve \<in> set (calls (is_threshold and2_env and2 (Some [])))"
    by code_simp
  from on_set_translation [OF h] h show ?thesis by blast
qed

text \<open>
  Claim C4 (OFF-set constraint translation).  Whenever the routine gets as far as calling
  the solver, the rows registered after those of the ON-set are, in order, exactly one row
  per cube of the cover of the complement; the row of a cube is a \<open>\<le>\<close> row and says that
  the sum of the weights of the variables that are absent from the cube or required true,
  minus the threshold, is at most \<open>-1\<close>.  Only variables required false are left out.
\<close>

theorem off_set_translation:
  assumes "Solve \<in> set (calls (is_threshold e tt plf))"
  shows "\<exists>fr. classify [0..<num_vars tt] (initial_frame tt) = Inr fr \<and>
           drop (length (isop e (ttf fr))) (registered (calls (is_threshold e tt plf))) =
             map (off_constraint (num_vars tt)) (isop e (unary_not (ttf fr))) \<and>
           (\<forall>cube vals.
              constr_type (off_constraint (num_vars tt) cube) = LE \<and>
              (satisfies (off_constraint (num_vars tt) cube) vals \<longleftrightarrow>
               (\<Sum>i \<in> {i. i < num_vars tt \<and> (\<not> get_mask cube i \<or> get_bit cube i)}. vals ! i)
                     - vals ! num_vars tt \<le> -1))"
proof -
  from registered_rows [OF assms] obtain fr where
    c: "classify [0..<num_vars tt] (initial_frame tt) = Inr fr" and
    r: "registered (calls (is_threshold e tt plf)) = rows (problem e (num_vars tt) fr)"
    by blast
  have "drop (length (isop e (ttf fr))) (registered (calls (is_threshold e tt plf))) =
          map (off_constraint (num_vars tt)) (isop e (unary_not (ttf fr)))"
    by (simp add: r problem_def)
  moreover have "constr_type (off_constraint (num_vars tt) cube) = LE" for cube
    by (simp add: off_constraint_def Let_def)
  ultimately show ?thesis
    using c satisfies_off_constraint by blast
qed

theorem off_set_translation_witness:
  "Solve \<in> set (calls (is_threshold and2_env and2 (Some []))) \<and>
   (\<exists>fr. classify [0..<num_vars and2] (initial_frame and2) = Inr fr \<and>
      drop (length (isop and2_env (ttf fr))) (registered (calls (is_threshold and2_env and2 (Some [])))) =
        map (off_constraint (num_vars and2)) (isop and2_env (unary_not (ttf fr))))"
proof -
  have h: "Solve \<in> set (calls (is_threshold and2_env and2 (Some [])))"
    by code_simp
  from off_set_translation [OF h] h show ?thesis by blast
qed

text \<open>
  Claim C5 (polarity back-mapping).  When the call succeeds, the linear form written
  through \<open>plf\<close> has one entry per variable and the threshold; for every variable recorded
  as negative unate the final weight is the negated solved weight, every other weight is
  the solved weight unchanged, and the final threshold is the solved threshold plus the sum
  of the final (negated) weights of the negative-unate variables.  The arithmetic is that
  of \<^verbatim>\<open>int64_t\<close>.
\<close>

theorem polarity_back_mapping:
  assumes "classify [0..<num_vars tt] (initial_frame tt) = Inr fr"
    and "outcome (is_threshold e tt plf) = Return True"
  shows "\<exists>lf. plf_out (is_threshold e tt plf) = Some lf \<and>
      length lf = num_vars tt + 1 \<and>
      (\<forall>i<num_vars tt.
         lf ! i = (if i \<in> set (neg_unate fr) then - (solved_form e (num_vars tt) fr ! i)
                   else solved_form e (num_vars tt) fr ! i)) \<and>
      lf ! num_vars tt =
        solved_form e (num_vars tt) fr ! num_vars tt + (\<Sum>i \<leftarrow> neg_unate fr. lf ! i)"
proof -
  let ?n = "num_vars tt"
  let ?s = "solved_form e ?n fr"
  let ?lf = "adjust (?n + 1) (neg_unate fr) ?s"
  note cl = classify_initial [OF assms(1)]
  from adjust_nth [OF cl(4) cl(3) solved_form_length, of e fr]
  have w: "\<forall>i<?n. ?lf ! i = (if i \<in> set (neg_unate fr) then - (?s ! i) else ?s ! i)"
    and t: "?lf ! ?n = ?s ! ?n + (\<Sum>v \<leftarrow> neg_unate fr. - (?s ! v))"
    by blast+
  have "(\<Sum>v \<leftarrow> neg_unate fr. - (?s ! v)) = (\<Sum>v \<leftarrow> neg_unate fr. ?lf ! v)"
  proof (rule arg_cong [where f = sum_list], rule map_cong [OF refl])
    fix v assume "v \<in> set (neg_unate fr)"
    with cl(3) w show "- (?s ! v) = ?lf ! v" by auto
  qed
  with t have "?lf ! ?n = ?s ! ?n + (\<Sum>v \<leftarrow> neg_unate fr. ?lf ! v)" by simp
  with w is_threshold_True(2) [OF assms] show ?thesis
    by (simp add: adjust_length solved_form_length)
qed

theorem polarity_back_mapping_witness:
  "classify [0..<num_vars nx0_and_x1] (initial_frame nx0_and_x1) =
     Inr \<lparr>tt_arg = nx0_and_x1, ttf = and2, neg_unate = [0]\<rparr> \<and>
   outcome (is_threshold and2_env nx0_and_x1 (Some [])) = Return True \<and>
   solved_form and2_env 2 \<lparr>tt_arg = nx0_and_x1, ttf = and2, neg_unate = [0]\<rparr> = [1, 1, 2] \<and>
   plf_out (is_threshold and2_env nx0_and_x1 (Some [])) = Some [-1, 1, 1]"
proof -
  have h1: "classify [0..<num_vars nx0_and_x1] (initial_frame nx0_and_x1) =
     Inr \<lparr>tt_arg = nx0_and_x1, ttf = and2, neg_unate = [0]\<rparr>"
    by code_simp
  have h2: "outcome (is_threshold and2_env nx0_and_x1 (Some [])) = Return True"
    by code_simp
  have h3: "solved_form and2_env 2 \<lparr>tt_arg = nx0_and_x1, ttf = and2, neg_unate = [0]\<rparr> = [1, 1, 2]"
    by code_simp
  have h4: "plf_out (is_threshold and2_env nx0_and_x1 (Some [])) = Some [-1, 1, 1]"
    by code_simp
  from polarity_back_mapping [OF h1 h2] h1 h2 h3 h4 show ?thesis by simp
qed






text \<open>
  Claim C7 (failure atomicity).  Whenever \<open>is_threshold\<close> returns false, on whichever
  path (binate variable, failed allocation, refused row or objective, solver status other
  than OPTIMAL and SUBOPTIMAL), the vector behind \<open>plf\<close> holds what it held before the
  call: it is never written.
\<close>

theorem failure_leaves_plf:
  "outcome (is_threshold e tt plf) = Return False \<Longrightarrow> plf_out (is_threshold e tt plf) = plf"
proof (cases "classify [0..<num_vars tt] (initial_frame tt)")
  case (Inl fr)
  then show ?thesis by (simp add: is_threshold_frame)
next
  case (Inr fr)
  assume f: "outcome (is_threshold e tt plf) = Return False"
  show ?thesis
  proof (cases "reaches_solve e (num_vars tt) fr")
    case True
    with f Inr show ?thesis
      by (simp add: is_threshold_frame solve_stage_reached split: if_splits option.splits)
  next
    case False
    with Inr show ?thesis
      by (simp add: is_threshold_frame solve_stage_not_reached)
  qed
qed

theorem failure_leaves_plf_witness:
  "outcome (is_threshold and2_env xor2 (Some [7])) = Return False \<and>
   plf_out (is_threshold and2_env xor2 (Some [7])) = Some [7]"
proof -
  have h: "outcome (is_threshold and2_env xor2 (Some [7])) = Return False"
    by code_simp
  from failure_leaves_plf [OF h] h show ?thesis by simp
qed

text \<open>
  Claim C8 (release on every exit path), evaluated where it fails.  On AND of two
  variables, when \<^verbatim>\<open>add_constraintex\<close> refuses the first row, the routine returns false
  at line 145 with both buffers and the model still allocated: no call to \<^verbatim>\<open>free\<close> or
  \<^verbatim>\<open>delete_lp\<close> has been made.
\<close>

theorem early_return_leaks:
  "outcome (is_threshold refusing_env and2 (Some [])) = Return False \<and>
   live (is_threshold refusing_env and2 (Some [])) = {Colno_buffer, Row_buffer, Lp_model} \<and>
   calls (is_threshold refusing_env and2 (Some [])) =
     [Malloc Colno_buffer, Malloc Row_buffer, Make_lp 0 3, Set_verbose, Set_add_rowmode True,
      Add_constraintex \<lparr>row = [1, 1, -1], colno = [1, 2, 3], constr_type = GE, rh = 0\<rparr>]"
  by code_simp

text \<open>
  Claim C9 (input immutability).  Whatever the outcome, the caller's table is the same
  after the call as before.  The flips of the classifier go to the working copy only:
  when the loop ends normally the caller's table in the frame is still \<open>tt\<close>, and the
  working copy is \<open>tt\<close> with the recorded negative-unate variables flipped.
\<close>

theorem input_unchanged:
  "tt_out (is_threshold e tt plf) = tt \<and>
   (classify [0..<num_vars tt] (initial_frame tt) = Inr fr \<longrightarrow>
      tt_arg fr = tt \<and> ttf fr = fold (\<lambda>i t. flip_inplace t i) (neg_unate fr) tt)"
proof -
  have "tt_out (is_threshold e tt plf) = tt"
  proof (cases "classify [0..<num_vars tt] (initial_frame tt)")
    case (Inl fr')
    with classify_tt_arg [of "[0..<num_vars tt]" "initial_frame tt" fr']
    show ?thesis by (simp add: is_threshold_frame initial_frame_def)
  next
    case (Inr fr')
    from classify_initial(1) [OF Inr] have "tt_arg fr' = tt" .
    with Inr show ?thesis
      by (cases "reaches_solve e (num_vars tt) fr'")
        (simp_all add: is_threshold_frame solve_stage_reached solve_stage_not_reached
          split: option.splits)
  qed
  then show ?thesis using classify_initial(1,2) [of "num_vars tt" tt fr] by blast
qed

theorem input_unchanged_witness:
  "tt_out (is_threshold and2_env nx0_and_x1 (Some [])) = nx0_and_x1 \<and>
   classify [0..<num_vars nx0_and_x1] (initial_frame nx0_and_x1) =
     Inr \<lparr>tt_arg = nx0_and_x1, ttf = and2, neg_unate = [0]\<rparr> \<and>
   and2 = fold (\<lambda>i t. flip_inplace t i) [0] nx0_and_x1"
proof -
  have h: "classify [0..<num_vars nx0_and_x1] (initial_frame nx0_and_x1) =
     Inr \<lparr>tt_arg = nx0_and_x1, ttf = and2, neg_unate = [0]\<rparr>"
    by code_simp
  from input_unchanged [of and2_env nx0_and_x1 "Some []" "\<lparr>tt_arg = nx0_and_x1, ttf = and2, neg_unate = [0]\<rparr>"] h
  show ?thesis by simp
qed

text \<open>
  Claim C10 (implicit precondition on \<open>plf\<close>).  For every table on which a call with a
  vector succeeds, the call with the default null \<open>plf\<close> reaches the assignment of line 211
  and dereferences the null pointer; a call returns true only when \<open>plf\<close> is not null.
\<close>

theorem null_plf_dereferenced:
  "(outcome (is_threshold e tt (Some v)) = Return True \<longrightarrow>
      outcome (is_threshold e tt None) = Null_dereference) \<and>
   (outcome (is_threshold e tt plf) = Return True \<longrightarrow> plf \<noteq> None)"
proof (cases "classify [0..<num_vars tt] (initial_frame tt)")
  case (Inl fr)
  then show ?thesis by (simp add: is_threshold_frame)
next
  case (Inr fr)
  show ?thesis
  proof (cases "reaches_solve e (num_vars tt) fr")
    case True
    with Inr show ?thesis
      by (auto simp: is_threshold_frame solve_stage_reached split: if_splits option.splits)
  next
    case False
    with Inr show ?thesis
      by (simp add: is_threshold_frame solve_stage_not_reached)
  qed
qed

theorem null_plf_dereferenced_witness:
  "outcome (is_threshold and2_env and2 (Some [])) = Return True \<and>
   outcome (is_threshold and2_env and2 None) = Null_dereference \<and>
   Some [] \<noteq> (None :: linear_form option)"
proof -
  have h: "outcome (is_threshold and2_env and2 (Some [])) = Return True"
    by code_simp
  from null_plf_dereferenced [of and2_env and2 "[]" "Some []"] h show ?thesis by simp
qed

end
